theory Spec2Isabelle
  imports Main
begin

section \<open>The strangler-fig proxy: data model\<close>

text \<open>
  The proxy service (package \<open>main\<close> of the proxy) is a single Go file: a \<open>Config\<close> read
  from the environment, a \<open>ProxyServer\<close> holding three reverse proxies and a random
  source, its \<open>ServeHTTP\<close> method, and two middlewares (\<open>LoggingMiddleware\<close>,
  \<open>CORSMiddleware\<close>) wrapped around it in \<open>main\<close>.

  The embedding keeps the functions and their names. Effects are explicit: every
  handler transforms a \<open>world\<close>, which holds the response writer (headers, status,
  body), the random source, the lines given to \<open>log.Printf\<close>, the reverse proxies
  called, and whether the handler returned at all.
\<close>

subsection \<open>Configuration\<close>

record Config =
  Port :: string
  MonolithURL :: string
  MoviesServiceURL :: string
  EventsServiceURL :: string
  GradualMigration :: bool
  MoviesMigrationPercent :: int

text \<open>
  The three fields \<open>monolithProxy\<close>, \<open>moviesProxy\<close> and \<open>eventsProxy\<close> of
  \<open>ProxyServer\<close>: one reverse proxy per backend, each bound at start-up to the URL of
  the configuration.
\<close>

datatype backend = Monolith | MoviesMicroservice | EventsMicroservice

fun target :: "Config \<Rightarrow> backend \<Rightarrow> string" where
  "target c Monolith = MonolithURL c"
| "target c MoviesMicroservice = MoviesServiceURL c"
| "target c EventsMicroservice = EventsServiceURL c"

subsection \<open>The environment and \<open>strconv.Atoi\<close>\<close>

type_synonym env = "string \<rightharpoonup> string"

text \<open>\<open>os.Getenv\<close>: the value of the variable, the empty string when it is unset.\<close>

definition Getenv :: "env \<Rightarrow> string \<Rightarrow> string" where
  "Getenv e k = (case e k of None \<Rightarrow> [] | Some v \<Rightarrow> v)"

text \<open>
  \<open>strconv.Atoi\<close> of the Go standard library, for a 64-bit \<open>int\<close>: an optional sign
  \<open>+\<close> or \<open>-\<close>, then at least one decimal digit and nothing else; a syntax error or a
  value outside \<open>[-2^63, 2^63 - 1]\<close> is an error (\<open>None\<close>). The accumulation
  \<open>n = n*10 + int(ch - '0')\<close> is \<open>decimal\<close>.
\<close>

definition isDigit :: "char \<Rightarrow> bool" where
  "isDigit ch = (48 \<le> (of_char ch :: nat) \<and> (of_char ch :: nat) \<le> 57)"

fun decimal :: "string \<Rightarrow> int \<Rightarrow> int" where
  "decimal [] n = n"
| "decimal (ch # s) n = decimal s (n * 10 + (int (of_char ch) - 48))"

definition Atoi :: "string \<Rightarrow> int option" where
  "Atoi s0 =
     (case s0 of
        [] \<Rightarrow> None
      | c # cs \<Rightarrow>
          (let s = (if c = CHR ''-'' \<or> c = CHR ''+'' then cs else s0) in
           if s = [] \<or> \<not> list_all isDigit s then None
           else
             (let n = (if c = CHR ''-'' then - decimal s 0 else decimal s 0) in
              if n < - (2 ^ 63) \<or> 2 ^ 63 - 1 < n then None else Some n)))"

text \<open>
  \<open>loadConfig\<close>: each URL and the port default when the variable is empty or unset;
  the flag is a string comparison with \<open>"true"\<close>; the percentage starts at 50 and is
  replaced by whatever \<open>Atoi\<close> parses, when it parses.
\<close>

definition loadConfig :: "env \<Rightarrow> Config" where
  "loadConfig e =
     \<lparr> Port = (let port = Getenv e ''PORT'' in if port = [] then ''8000'' else port),
       MonolithURL =
         (let monolithURL = Getenv e ''MONOLITH_URL''
          in if monolithURL = [] then ''http://localhost:8080'' else monolithURL),
       MoviesServiceURL =
         (let moviesServiceURL = Getenv e ''MOVIES_SERVICE_URL''
          in if moviesServiceURL = [] then ''http://localhost:8081'' else moviesServiceURL),
       EventsServiceURL =
         (let eventsServiceURL = Getenv e ''EVENTS_SERVICE_URL''
          in if eventsServiceURL = [] then ''http://localhost:8082'' else eventsServiceURL),
       GradualMigration = (Getenv e ''GRADUAL_MIGRATION'' = ''true''),
       MoviesMigrationPercent =
         (let percentStr = Getenv e ''MOVIES_MIGRATION_PERCENT'' in
          if percentStr \<noteq> [] then
            (case Atoi percentStr of Some percent \<Rightarrow> percent | None \<Rightarrow> 50)
          else 50) \<rparr>"

subsection \<open>Requests, the random source, the world\<close>

record request =
  Method :: string
  Path :: string
  RequestURI :: string
  RemoteAddr :: string

text \<open>
  \<open>ps.rand\<close> is one \<open>*rand.Rand\<close>, seeded once in \<open>NewProxyServer\<close>. A seeded generator
  is the sequence of its outputs: \<open>tape\<close>, read at \<open>pos\<close>. \<open>Intn n\<close> (for \<open>n > 0\<close>, the
  only call passes 100) returns a value of \<open>[0, n)\<close> and advances the generator.
\<close>

record rand =
  tape :: "nat \<Rightarrow> int"
  pos :: nat

definition Intn :: "rand \<Rightarrow> int \<Rightarrow> int \<times> rand" where
  "Intn g n = (tape g (pos g) mod n, g\<lparr>pos := Suc (pos g)\<rparr>)"

text \<open>
  What a round trip to a backend comes to. The proxies are built by
  \<open>httputil.NewSingleHostReverseProxy\<close> and no \<open>Transport\<close> is set, so they use Go's
  default transport: it gives up dialling after 30 seconds, and it waits for the
  response headers without any limit.
  \<^item> \<open>Reply\<close>: the backend answers; status, headers and the whole body arrive.
  \<^item> \<open>Unreachable\<close>: \<open>RoundTrip\<close> returns an error (connection refused, dial timed out,
    connection reset before any response header).
  \<^item> \<open>Silent\<close>: the backend accepts the connection and never answers; \<open>RoundTrip\<close>
    does not return while the caller waits.
  \<^item> \<open>CutOff\<close>: status, headers and a part of the body arrive, then reading the body
    fails.
  The headers of an answer are held as Go's \<open>http.Header\<close> holds them, under canonical
  names.
\<close>

datatype upstream =
    Reply int "(string \<times> string) list" string
  | Unreachable string
  | Silent
  | CutOff int "(string \<times> string) list" string

type_synonym network = "backend \<Rightarrow> request \<Rightarrow> upstream"

text \<open>The calls of \<open>log.Printf\<close>, one constructor per format string, with its arguments.\<close>

datatype log_line =
    Incoming string string
  | RoutingEvents string
  | RoutingMovies string int
  | RoutingMonolith string int
  | RoutingDefault string
  | ProxyError string
  | Access string string string int

text \<open>
  How a handler ends: it returns to its caller; it never returns (it waits on a round
  trip); or it panics with \<open>http.ErrAbortHandler\<close>, which no handler of the chain
  recovers, so the server drops the connection. In the last two cases nothing that
  follows the call in the source runs.
\<close>

datatype fate = Returns | Hangs | Panics

text \<open>
  \<open>sent\<close> lists the reverse proxies whose \<open>ServeHTTP\<close> was called, in order; each call
  hands the request to the transport once. What the transport does below that call
  (it may send an idempotent request again on a reused connection that broke) is not
  part of the proxy service.
\<close>

record world =
  Header :: "string \<rightharpoonup> string list"
  statusCode :: "int option"
  body :: string
  rng :: rand
  logs :: "log_line list"
  sent :: "backend list"
  fate :: fate

text \<open>The world a request starts in: nothing written, nothing logged, nothing sent.\<close>

definition fresh :: "rand \<Rightarrow> world" where
  "fresh g =
     \<lparr> Header = Map.empty, statusCode = None, body = [], rng = g, logs = [], sent = [],
       fate = Returns \<rparr>"

section \<open>The operations\<close>

subsection \<open>Strings and header names\<close>

text \<open>
  \<open>strings.Split(s, ",")\<close> is \<open>split_commas\<close>; \<open>textproto.TrimString\<close> drops the ASCII
  white space (space, tab, line feed, carriage return) at both ends; \<open>lower\<close> and
  \<open>upper\<close> change the case of an ASCII letter.
\<close>

fun split_commas :: "string \<Rightarrow> string list" where
  "split_commas [] = [[]]"
| "split_commas (ch # s) =
     (if ch = CHR '','' then [] # split_commas s
      else (case split_commas s of [] \<Rightarrow> [[ch]] | x # xs \<Rightarrow> (ch # x) # xs))"

definition isASCIISpace :: "char \<Rightarrow> bool" where
  "isASCIISpace ch = (ch \<in> set [CHR '' '', CHR 0x09, CHR 0x0A, CHR 0x0D])"

definition TrimString :: "string \<Rightarrow> string" where
  "TrimString s = rev (dropWhile isASCIISpace (rev (dropWhile isASCIISpace s)))"

definition lower :: "char \<Rightarrow> char" where
  "lower ch =
     (case map_of (zip ''ABCDEFGHIJKLMNOPQRSTUVWXYZ'' ''abcdefghijklmnopqrstuvwxyz'') ch of
        None \<Rightarrow> ch
      | Some l \<Rightarrow> l)"

definition upper :: "char \<Rightarrow> char" where
  "upper ch =
     (case map_of (zip ''abcdefghijklmnopqrstuvwxyz'' ''ABCDEFGHIJKLMNOPQRSTUVWXYZ'') ch of
        None \<Rightarrow> ch
      | Some u \<Rightarrow> u)"

text \<open>
  \<open>textproto.CanonicalMIMEHeaderKey\<close>: a name made of token bytes only gets an upper
  case letter first and after each hyphen, lower case elsewhere; any other name is
  returned as it is.
\<close>

definition validHeaderFieldByte :: "char \<Rightarrow> bool" where
  "validHeaderFieldByte ch =
     (ch \<in> set (''0123456789abcdefghijklmnopqrstuvwxyzABCDEFGHIJKLMNOPQRSTUVWXYZ''
                 @ ''!#$%&*+-.^_`|~'' @ [CHR 0x27]))"

fun canonical :: "bool \<Rightarrow> string \<Rightarrow> string" where
  "canonical up [] = []"
| "canonical up (ch # s) =
     (let ch' = (if up then upper ch else lower ch) in ch' # canonical (ch' = CHR ''-'') s)"

definition CanonicalMIMEHeaderKey :: "string \<Rightarrow> string" where
  "CanonicalMIMEHeaderKey s = (if list_all validHeaderFieldByte s then canonical True s else s)"

subsection \<open>The response writer\<close>

text \<open>
  \<open>http.Header\<close> is a map from a name to its values: \<open>Header_Set\<close> replaces them, \<open>Header_Add\<close>
  appends one. \<open>WriteHeader\<close> fixes the status once (a second call changes nothing);
  \<open>Write\<close> sends status 200 first when none was written.
\<close>

definition Header_Set :: "string \<Rightarrow> string \<Rightarrow> world \<Rightarrow> world" where
  "Header_Set k v w = w\<lparr>Header := (Header w)(k \<mapsto> [v])\<rparr>"

definition Header_Add :: "string \<Rightarrow> string \<Rightarrow> world \<Rightarrow> world" where
  "Header_Add k v w =
     w\<lparr>Header := (Header w)(k \<mapsto> (case Header w k of None \<Rightarrow> [] | Some vs \<Rightarrow> vs) @ [v])\<rparr>"

definition WriteHeader :: "int \<Rightarrow> world \<Rightarrow> world" where
  "WriteHeader code w = (if statusCode w = None then w\<lparr>statusCode := Some code\<rparr> else w)"

definition Write :: "string \<Rightarrow> world \<Rightarrow> world" where
  "Write b w = (let w' = WriteHeader 200 w in w'\<lparr>body := body w' @ b\<rparr>)"

definition Printf :: "log_line \<Rightarrow> world \<Rightarrow> world" where
  "Printf l w = w\<lparr>logs := logs w @ [l]\<rparr>"

text \<open>\<open>strings.HasPrefix(s, prefix)\<close>: \<open>len(s) >= len(prefix) && s[:len(prefix)] == prefix\<close>.\<close>

definition HasPrefix :: "string \<Rightarrow> string \<Rightarrow> bool" where
  "HasPrefix s pre = (length pre \<le> length s \<and> take (length pre) s = pre)"

subsection \<open>The reverse proxy\<close>

text \<open>
  The error handler that \<open>createReverseProxy\<close> installs: it logs the error, writes
  status 502 and encodes the map \<open>{"error": "Service temporarily unavailable"}\<close> as
  JSON (the encoder ends the value with a newline). It holds no proxy and no client:
  it can only write to the caller.
\<close>

definition error_json :: string where
  "error_json =
     [CHR ''{'', CHR 0x22] @ ''error'' @ [CHR 0x22, CHR '':'', CHR 0x22]
       @ ''Service temporarily unavailable'' @ [CHR 0x22, CHR ''}'', CHR 0x0A]"

definition ErrorHandler :: "string \<Rightarrow> world \<Rightarrow> world" where
  "ErrorHandler err w = Write error_json (WriteHeader 502 (Printf (ProxyError err) w))"

text \<open>
  The hop-by-hop headers that \<open>httputil.ReverseProxy\<close> takes out of an answer before
  it relays it: every name listed in a \<open>Connection\<close> header, then the fixed list
  \<open>hopHeaders\<close>. \<open>Header_Del\<close> is \<open>http.Header.Del\<close>, which looks the name up in its
  canonical form.
\<close>

definition hopHeaders :: "string list" where
  "hopHeaders =
     [''Connection'', ''Proxy-Connection'', ''Keep-Alive'', ''Proxy-Authenticate'',
      ''Proxy-Authorization'', ''Te'', ''Trailer'', ''Transfer-Encoding'', ''Upgrade'']"

definition Header_Del :: "string \<Rightarrow> (string \<times> string) list \<Rightarrow> (string \<times> string) list" where
  "Header_Del key hs = filter (\<lambda>kv. fst kv \<noteq> CanonicalMIMEHeaderKey key) hs"

definition removeHopByHopHeaders :: "(string \<times> string) list \<Rightarrow> (string \<times> string) list" where
  "removeHopByHopHeaders hs =
     (let fs = map snd (filter (\<lambda>kv. fst kv = ''Connection'') hs);
          sfs = filter (\<lambda>sf. sf \<noteq> []) (map TrimString (concat (map split_commas fs)))
      in fold Header_Del hopHeaders (fold Header_Del sfs hs))"

text \<open>
  \<open>httputil.ReverseProxy.ServeHTTP\<close>, as far as the proxy service relies on it. The
  request is handed to the transport once, for the proxy's own target.
  \<^item> An error of the round trip goes to the error handler, and the proxy returns.
  \<^item> While the round trip does not return, nothing is written and the proxy does not
    return.
  \<^item> An answer is relayed: its headers without the hop-by-hop ones are added to the
    writer's, then its status is written, then its body is copied.
  \<^item> When copying the body fails, what arrived has been written and the proxy panics
    with \<open>http.ErrAbortHandler\<close>; the error handler is not called.
  Left out: the director (host and scheme of the outbound request rewritten to the
  target's, which does not change the backend reached), informational and
  protocol-switching answers, and trailers.
\<close>

fun copyHeader :: "(string \<times> string) list \<Rightarrow> world \<Rightarrow> world" where
  "copyHeader [] w = w"
| "copyHeader ((k, v) # hs) w = copyHeader hs (Header_Add k v w)"

definition relay :: "int \<Rightarrow> (string \<times> string) list \<Rightarrow> string \<Rightarrow> world \<Rightarrow> world" where
  "relay code hs bd w = Write bd (WriteHeader code (copyHeader (removeHopByHopHeaders hs) w))"

definition proxy_ServeHTTP :: "backend \<Rightarrow> network \<Rightarrow> request \<Rightarrow> world \<Rightarrow> world" where
  "proxy_ServeHTTP b net r w =
     (let w1 = w\<lparr>sent := sent w @ [b]\<rparr> in
      case net b r of
        Unreachable err \<Rightarrow> ErrorHandler err w1
      | Silent \<Rightarrow> w1\<lparr>fate := Hangs\<rparr>
      | Reply code hs bd \<Rightarrow> relay code hs bd w1
      | CutOff code hs bd \<Rightarrow> (relay code hs bd w1)\<lparr>fate := Panics\<rparr>)"

subsection \<open>The proxy server\<close>

text \<open>
  \<open>shouldRouteToNewService\<close>: without gradual migration the answer is yes and the
  random source is not touched; with it, one draw of \<open>Intn(100)\<close> is compared with the
  percentage.
\<close>

definition shouldRouteToNewService :: "Config \<Rightarrow> rand \<Rightarrow> bool \<times> rand" where
  "shouldRouteToNewService c g =
     (if \<not> GradualMigration c then (True, g)
      else (let (randomValue, g') = Intn g 100
            in (randomValue < MoviesMigrationPercent c, g')))"

definition handleHealth :: "world \<Rightarrow> world" where
  "handleHealth w =
     Write ''Strangler Fig Proxy is healthy''
       (WriteHeader 200 (Header_Set ''Content-Type'' ''text/plain'' w))"

definition ServeHTTP :: "Config \<Rightarrow> network \<Rightarrow> request \<Rightarrow> world \<Rightarrow> world" where
  "ServeHTTP c net r w0 =
     (let path = Path r;
          w = Printf (Incoming (Method r) path) w0 in
      if path = ''/health'' then handleHealth w
      else if HasPrefix path ''/api/events'' then
        proxy_ServeHTTP EventsMicroservice net r (Printf (RoutingEvents path) w)
      else if HasPrefix path ''/api/movies'' then
        (let (new, g) = shouldRouteToNewService c (rng w);
             w' = w\<lparr>rng := g\<rparr> in
         if new then
           proxy_ServeHTTP MoviesMicroservice net r
             (Printf (RoutingMovies path (MoviesMigrationPercent c)) w')
         else
           proxy_ServeHTTP Monolith net r
             (Printf (RoutingMonolith path (MoviesMigrationPercent c)) w'))
      else proxy_ServeHTTP Monolith net r (Printf (RoutingDefault path) w))"

subsection \<open>The middlewares and the handler chain\<close>

text \<open>
  \<open>LoggingMiddleware\<close> runs the next handler and, once that has returned, logs
  method, request URI, remote address and the status it captured (200 when
  \<open>WriteHeader\<close> was never called); the measured duration is left out. \<open>CORSMiddleware\<close> sets the three headers on every
  response and answers an \<open>OPTIONS\<close> request itself, without calling the next handler.
\<close>

type_synonym handler = "request \<Rightarrow> world \<Rightarrow> world"

definition LoggingMiddleware :: "handler \<Rightarrow> handler" where
  "LoggingMiddleware next r w =
     (let w' = next r w in
      if fate w' = Returns then
        Printf (Access (Method r) (RequestURI r) (RemoteAddr r)
                  (case statusCode w' of None \<Rightarrow> 200 | Some code \<Rightarrow> code)) w'
      else w')"

definition CORSMiddleware :: "handler \<Rightarrow> handler" where
  "CORSMiddleware next r w0 =
     (let w = Header_Set ''Access-Control-Allow-Headers'' ''Content-Type, Authorization''
                (Header_Set ''Access-Control-Allow-Methods'' ''GET, POST, PUT, DELETE, OPTIONS''
                  (Header_Set ''Access-Control-Allow-Origin'' ''*'' w0)) in
      if Method r = ''OPTIONS'' then WriteHeader 200 w
      else next r w)"

text \<open>The chain that \<open>main\<close> installs: \<open>LoggingMiddleware(CORSMiddleware(proxyServer))\<close>.\<close>

definition handler :: "Config \<Rightarrow> network \<Rightarrow> handler" where
  "handler c net = LoggingMiddleware (CORSMiddleware (ServeHTTP c net))"

section \<open>Reading a response and the log\<close>

text \<open>
  The members of a comma-separated header value, the optional spaces around each
  member dropped: how a client reads \<open>Access-Control-Allow-Methods\<close> and
  \<open>Access-Control-Allow-Headers\<close>.
\<close>

definition trim :: "string \<Rightarrow> string" where
  "trim s = rev (dropWhile (\<lambda>ch. ch = CHR '' '') (rev (dropWhile (\<lambda>ch. ch = CHR '' '') s)))"

definition members :: "string \<Rightarrow> string list" where
  "members v = map trim (split_commas v)"

text \<open>
  The route categories of the specification (section 4.1): the category of a path by
  prefix, events first. \<open>ServeHTTP\<close> has no such function; it has the chain of
  conditions, and each branch logs its own line before it forwards. \<open>category_of\<close>
  reads the category back from a line of the log, so \<open>categories\<close> is the
  classification that \<open>ServeHTTP\<close> really made.
\<close>

datatype RouteCategory = Events | Movies | Default

definition classify :: "string \<Rightarrow> RouteCategory" where
  "classify path =
     (if HasPrefix path ''/api/events'' then Events
      else if HasPrefix path ''/api/movies'' then Movies
      else Default)"

fun category_of :: "log_line \<Rightarrow> RouteCategory list" where
  "category_of (RoutingEvents p) = [Events]"
| "category_of (RoutingMovies p n) = [Movies]"
| "category_of (RoutingMonolith p n) = [Movies]"
| "category_of (RoutingDefault p) = [Default]"
| "category_of l = []"

definition categories :: "world \<Rightarrow> RouteCategory list" where
  "categories w = concat (map category_of (logs w))"

text \<open>
  A path whose first characters spell a prefix in another letter case: equal to it
  after folding the ASCII letters with \<open>lower\<close>, different from it as written.
\<close>

definition case_variant :: "string \<Rightarrow> string \<Rightarrow> bool" where
  "case_variant pre path =
     (map lower (take (length pre) path) = pre \<and> take (length pre) path \<noteq> pre)"

text \<open>
  The errors the error handler of a reverse proxy was called with, read back from the
  log, and what a round trip of each kind leaves in a writer that was still empty:
  the status, the body, the way the handler ends, the errors handled.
\<close>

fun error_of :: "log_line \<Rightarrow> string list" where
  "error_of (ProxyError err) = [err]"
| "error_of l = []"

definition proxy_errors :: "world \<Rightarrow> string list" where
  "proxy_errors w = concat (map error_of (logs w))"





text \<open>
  The configuration with its percentage brought into \<open>[0, 100]\<close>: what a clamp at
  load time would have produced. \<open>loadConfig\<close> does not do this.
\<close>

definition clamped :: "Config \<Rightarrow> Config" where
  "clamped c = c\<lparr>MoviesMigrationPercent := max 0 (min 100 (MoviesMigrationPercent c))\<rparr>"

section \<open>Concrete inputs\<close>

text \<open>
  A configuration with gradual migration on and a given percentage, one with it off,
  a generator whose every raw output is \<open>v\<close>, requests to each kind of path, and four
  networks: one where every backend answers, one where none can be reached, one where
  every backend accepts and stays silent, one where every answer breaks off in its
  body.
\<close>

definition cfg_gradual :: "int \<Rightarrow> Config" where
  "cfg_gradual p =
     \<lparr> Port = ''8000'', MonolithURL = ''http://localhost:8080'',
       MoviesServiceURL = ''http://localhost:8081'', EventsServiceURL = ''http://localhost:8082'',
       GradualMigration = True, MoviesMigrationPercent = p \<rparr>"

definition cfg_cutover :: "int \<Rightarrow> Config" where
  "cfg_cutover p = (cfg_gradual p)\<lparr>GradualMigration := False\<rparr>"

definition const_rand :: "int \<Rightarrow> rand" where
  "const_rand v = \<lparr> tape = (\<lambda>i. v), pos = 0 \<rparr>"

definition req :: "string \<Rightarrow> string \<Rightarrow> request" where
  "req m p = \<lparr> Method = m, Path = p, RequestURI = p, RemoteAddr = ''10.0.0.1:40000'' \<rparr>"

definition net_up :: network where
  "net_up b r = Reply 200 [(''Content-Type'', ''application/json'')] ''[]''"

definition net_down :: network where
  "net_down b r = Unreachable ''dial tcp: connection refused''"


definition net_cut :: network where
  "net_cut b r = CutOff 200 [(''Content-Type'', ''application/json'')] ''[{''"

section \<open>Facts about the operations\<close>

lemma HasPrefix_movies_not_health: "HasPrefix p ''/api/movies'' \<Longrightarrow> p \<noteq> ''/health''"
  by (auto simp: HasPrefix_def)

lemma HasPrefix_movies_not_events:
  "HasPrefix p ''/api/movies'' \<Longrightarrow> \<not> HasPrefix p ''/api/events''"
  by (auto simp: HasPrefix_def)

lemma HasPrefix_events_not_health: "HasPrefix p ''/api/events'' \<Longrightarrow> p \<noteq> ''/health''"
  by (auto simp: HasPrefix_def)

lemma Intn_range: "0 < n \<Longrightarrow> 0 \<le> fst (Intn g n) \<and> fst (Intn g n) < n"
  by (simp add: Intn_def)

text \<open>What each writer operation leaves alone, field by field.\<close>

lemma sent_WriteHeader [simp]: "sent (WriteHeader code w) = sent w"
  and rng_WriteHeader [simp]: "rng (WriteHeader code w) = rng w"
  and logs_WriteHeader [simp]: "logs (WriteHeader code w) = logs w"
  and body_WriteHeader [simp]: "body (WriteHeader code w) = body w"
  and Header_WriteHeader [simp]: "Header (WriteHeader code w) = Header w"
  and fate_WriteHeader [simp]: "fate (WriteHeader code w) = fate w"
  by (simp_all add: WriteHeader_def)

lemma statusCode_WriteHeader [simp]:
  "statusCode (WriteHeader code w) =
     (case statusCode w of None \<Rightarrow> Some code | Some c \<Rightarrow> Some c)"
  by (simp add: WriteHeader_def split: option.splits)

lemma sent_Write [simp]: "sent (Write b w) = sent w"
  and rng_Write [simp]: "rng (Write b w) = rng w"
  and logs_Write [simp]: "logs (Write b w) = logs w"
  and body_Write [simp]: "body (Write b w) = body w @ b"
  and Header_Write [simp]: "Header (Write b w) = Header w"
  and fate_Write [simp]: "fate (Write b w) = fate w"
  by (simp_all add: Write_def Let_def)

lemma statusCode_Write [simp]:
  "statusCode (Write b w) = (case statusCode w of None \<Rightarrow> Some 200 | Some c \<Rightarrow> Some c)"
  by (simp add: Write_def Let_def)

lemma sent_Printf [simp]: "sent (Printf l w) = sent w"
  and rng_Printf [simp]: "rng (Printf l w) = rng w"
  and logs_Printf [simp]: "logs (Printf l w) = logs w @ [l]"
  and body_Printf [simp]: "body (Printf l w) = body w"
  and Header_Printf [simp]: "Header (Printf l w) = Header w"
  and statusCode_Printf [simp]: "statusCode (Printf l w) = statusCode w"
  and fate_Printf [simp]: "fate (Printf l w) = fate w"
  by (simp_all add: Printf_def)

lemma sent_Header_Set [simp]: "sent (Header_Set k v w) = sent w"
  and rng_Header_Set [simp]: "rng (Header_Set k v w) = rng w"
  and logs_Header_Set [simp]: "logs (Header_Set k v w) = logs w"
  and body_Header_Set [simp]: "body (Header_Set k v w) = body w"
  and statusCode_Header_Set [simp]: "statusCode (Header_Set k v w) = statusCode w"
  and Header_Header_Set [simp]: "Header (Header_Set k v w) = (Header w)(k \<mapsto> [v])"
  and fate_Header_Set [simp]: "fate (Header_Set k v w) = fate w"
  by (simp_all add: Header_Set_def)

lemma copyHeader_keeps [simp]:
  "sent (copyHeader hs w) = sent w"
  "rng (copyHeader hs w) = rng w"
  "logs (copyHeader hs w) = logs w"
  "body (copyHeader hs w) = body w"
  "statusCode (copyHeader hs w) = statusCode w"
  "fate (copyHeader hs w) = fate w"
  by (induction hs w rule: copyHeader.induct) (simp_all add: Header_Add_def)

lemma sent_ErrorHandler [simp]: "sent (ErrorHandler err w) = sent w"
  and rng_ErrorHandler [simp]: "rng (ErrorHandler err w) = rng w"
  and logs_ErrorHandler [simp]: "logs (ErrorHandler err w) = logs w @ [ProxyError err]"
  and body_ErrorHandler [simp]: "body (ErrorHandler err w) = body w @ error_json"
  and Header_ErrorHandler [simp]: "Header (ErrorHandler err w) = Header w"
  and fate_ErrorHandler [simp]: "fate (ErrorHandler err w) = fate w"
  by (simp_all add: ErrorHandler_def)

lemma statusCode_ErrorHandler [simp]:
  "statusCode (ErrorHandler err w) =
     (case statusCode w of None \<Rightarrow> Some 502 | Some c \<Rightarrow> Some c)"
  by (simp add: ErrorHandler_def split: option.splits)

text \<open>An answer that closes the connection and names a header of its own as hop-by-hop.\<close>

lemma removeHopByHopHeaders_example:
  "removeHopByHopHeaders
     [(''Connection'', ''close, x-foo''), (''X-Foo'', ''1''), (''Keep-Alive'', ''timeout=5''),
      (''Content-Type'', ''application/json'')]
   = [(''Content-Type'', ''application/json'')]"
  by code_simp

lemma sent_relay [simp]: "sent (relay code hs bd w) = sent w"
  and rng_relay [simp]: "rng (relay code hs bd w) = rng w"
  and logs_relay [simp]: "logs (relay code hs bd w) = logs w"
  and body_relay [simp]: "body (relay code hs bd w) = body w @ bd"
  and fate_relay [simp]: "fate (relay code hs bd w) = fate w"
  by (simp_all add: relay_def)

lemma statusCode_relay [simp]:
  "statusCode (relay code hs bd w) =
     (case statusCode w of None \<Rightarrow> Some code | Some c \<Rightarrow> Some c)"
  by (simp add: relay_def split: option.splits)

text \<open>
  A reverse proxy hands the request to the transport once, for its own target, and
  draws nothing; it logs only when the round trip returned an error.
\<close>

lemma sent_proxy [simp]: "sent (proxy_ServeHTTP b net r w) = sent w @ [b]"
  by (simp add: proxy_ServeHTTP_def Let_def split: upstream.splits)

lemma rng_proxy [simp]: "rng (proxy_ServeHTTP b net r w) = rng w"
  by (simp add: proxy_ServeHTTP_def Let_def split: upstream.splits)

lemma logs_proxy [simp]:
  "logs (proxy_ServeHTTP b net r w) =
     logs w @ (case net b r of Unreachable err \<Rightarrow> [ProxyError err] | _ \<Rightarrow> [])"
  by (simp add: proxy_ServeHTTP_def Let_def split: upstream.splits)

section \<open>The migration policy\<close>

text \<open>
  C1. A request whose path has the prefix \<open>/api/movies\<close> makes exactly one round trip.
  Without gradual migration it goes to the movies microservice and the random source
  is untouched. With gradual migration one value \<open>r\<close> is drawn by \<open>Intn(100)\<close>, so
  \<open>0 \<le> r < 100\<close>, the generator advances by that one draw, and the round trip goes to
  the movies microservice exactly when \<open>r\<close> is below the migration percentage, to the
  monolith otherwise.
\<close>

theorem movies_routing:
  assumes "HasPrefix (Path r) ''/api/movies''"
  shows "sent (ServeHTTP c net r w) =
           sent w @ [if \<not> GradualMigration c then MoviesMicroservice
                     else if fst (Intn (rng w) 100) < MoviesMigrationPercent c
                          then MoviesMicroservice else Monolith]
         \<and> 0 \<le> fst (Intn (rng w) 100) \<and> fst (Intn (rng w) 100) < 100
         \<and> rng (ServeHTTP c net r w) =
             (if GradualMigration c then snd (Intn (rng w) 100) else rng w)"
proof -
  from assms have "Path r \<noteq> ''/health''" and "\<not> HasPrefix (Path r) ''/api/events''"
    by (simp_all add: HasPrefix_movies_not_health HasPrefix_movies_not_events)
  with assms show ?thesis
    by (simp add: ServeHTTP_def shouldRouteToNewService_def Let_def Intn_range
        split: prod.splits)
qed

theorem movies_routing_witness:
  "HasPrefix (Path (req ''GET'' ''/api/movies/1'')) ''/api/movies''
   \<and> sent (ServeHTTP (cfg_gradual 50) net_up (req ''GET'' ''/api/movies/1'')
             (fresh (const_rand 7))) = [MoviesMicroservice]
   \<and> sent (ServeHTTP (cfg_gradual 50) net_up (req ''GET'' ''/api/movies/1'')
             (fresh (const_rand 50))) = [Monolith]
   \<and> sent (ServeHTTP (cfg_cutover 50) net_up (req ''GET'' ''/api/movies/1'')
             (fresh (const_rand 50))) = [MoviesMicroservice]"
proof -
  have h: "HasPrefix (Path (req ''GET'' ''/api/movies/1'')) ''/api/movies''"
    by (simp add: req_def HasPrefix_def)
  show ?thesis
    using h
      movies_routing [OF h, of "cfg_gradual 50" net_up "fresh (const_rand 7)"]
      movies_routing [OF h, of "cfg_gradual 50" net_up "fresh (const_rand 50)"]
      movies_routing [OF h, of "cfg_cutover 50" net_up "fresh (const_rand 50)"]
    by (simp add: cfg_gradual_def cfg_cutover_def fresh_def const_rand_def Intn_def)
qed

text \<open>
  C2. A request whose path has the prefix \<open>/api/events\<close> makes exactly one round trip,
  to the events microservice, whatever the configuration (percentage, gradual flag)
  and whatever the state of the random source, which is not drawn from.
\<close>

theorem events_routing:
  assumes "HasPrefix (Path r) ''/api/events''"
  shows "sent (ServeHTTP c net r w) = sent w @ [EventsMicroservice]
         \<and> rng (ServeHTTP c net r w) = rng w"
  using assms HasPrefix_events_not_health [OF assms]
  by (simp add: ServeHTTP_def Let_def)

theorem events_routing_witness:
  "HasPrefix (Path (req ''POST'' ''/api/events/movie'')) ''/api/events''
   \<and> sent (ServeHTTP (cfg_gradual 0) net_up (req ''POST'' ''/api/events/movie'')
             (fresh (const_rand 99))) = [EventsMicroservice]
   \<and> sent (ServeHTTP (cfg_cutover 100) net_down (req ''POST'' ''/api/events/movie'')
             (fresh (const_rand 0))) = [EventsMicroservice]"
proof -
  have h: "HasPrefix (Path (req ''POST'' ''/api/events/movie'')) ''/api/events''"
    by (simp add: req_def HasPrefix_def)
  show ?thesis
    using h
      events_routing [OF h, of "cfg_gradual 0" net_up "fresh (const_rand 99)"]
      events_routing [OF h, of "cfg_cutover 100" net_down "fresh (const_rand 0)"]
    by (simp add: fresh_def)
qed

text \<open>
  C3. A request whose path is not \<open>/health\<close> and has neither the prefix \<open>/api/events\<close>
  nor the prefix \<open>/api/movies\<close> makes exactly one round trip, to the monolith, for
  every configuration and every state of the random source, which is not drawn from.
\<close>

theorem default_routing:
  assumes "Path r \<noteq> ''/health''"
    and "\<not> HasPrefix (Path r) ''/api/events''"
    and "\<not> HasPrefix (Path r) ''/api/movies''"
  shows "sent (ServeHTTP c net r w) = sent w @ [Monolith]
         \<and> rng (ServeHTTP c net r w) = rng w"
  using assms by (simp add: ServeHTTP_def Let_def)

theorem default_routing_witness:
  "Path (req ''GET'' ''/api/users'') \<noteq> ''/health''
   \<and> \<not> HasPrefix (Path (req ''GET'' ''/api/users'')) ''/api/events''
   \<and> \<not> HasPrefix (Path (req ''GET'' ''/api/users'')) ''/api/movies''
   \<and> sent (ServeHTTP (cfg_cutover 100) net_up (req ''GET'' ''/api/users'')
             (fresh (const_rand 0))) = [Monolith]"
proof -
  have h1: "Path (req ''GET'' ''/api/users'') \<noteq> ''/health''"
    and h2: "\<not> HasPrefix (Path (req ''GET'' ''/api/users'')) ''/api/events''"
    and h3: "\<not> HasPrefix (Path (req ''GET'' ''/api/users'')) ''/api/movies''"
    by (simp_all add: req_def HasPrefix_def)
  show ?thesis
    using h1 h2 h3
      default_routing [OF h1 h2 h3, of "cfg_cutover 100" net_up "fresh (const_rand 0)"]
    by (simp add: fresh_def)
qed

text \<open>
  C5. With gradual migration on, a request under \<open>/api/movies\<close> goes to the monolith
  when the percentage is 0 and to the movies microservice when it is 100, whatever
  the random source holds: the draw lies in \<open>[0, 100)\<close>, so it is never below 0 and
  always below 100.
\<close>

theorem percent_bounds_routing:
  assumes "GradualMigration c" and "HasPrefix (Path r) ''/api/movies''"
  shows "(MoviesMigrationPercent c = 0 \<longrightarrow> sent (ServeHTTP c net r w) = sent w @ [Monolith])
       \<and> (MoviesMigrationPercent c = 100 \<longrightarrow>
            sent (ServeHTTP c net r w) = sent w @ [MoviesMicroservice])"
proof -
  from assms(2) have "Path r \<noteq> ''/health''" and "\<not> HasPrefix (Path r) ''/api/events''"
    by (simp_all add: HasPrefix_movies_not_health HasPrefix_movies_not_events)
  moreover have "0 \<le> fst (Intn (rng w) 100)" and "fst (Intn (rng w) 100) < 100"
    using Intn_range [of 100 "rng w"] by simp_all
  ultimately show ?thesis
    using assms
    by (auto simp add: ServeHTTP_def shouldRouteToNewService_def Let_def case_prod_beta)
qed

theorem percent_bounds_routing_witness:
  "GradualMigration (cfg_gradual 0) \<and> GradualMigration (cfg_gradual 100)
   \<and> HasPrefix (Path (req ''GET'' ''/api/movies'')) ''/api/movies''
   \<and> sent (ServeHTTP (cfg_gradual 0) net_up (req ''GET'' ''/api/movies'')
             (fresh (const_rand 0))) = [Monolith]
   \<and> sent (ServeHTTP (cfg_gradual 100) net_up (req ''GET'' ''/api/movies'')
             (fresh (const_rand 99))) = [MoviesMicroservice]"
proof -
  have g0: "GradualMigration (cfg_gradual 0)" and g100: "GradualMigration (cfg_gradual 100)"
    by (simp_all add: cfg_gradual_def)
  have h: "HasPrefix (Path (req ''GET'' ''/api/movies'')) ''/api/movies''"
    by (simp add: req_def HasPrefix_def)
  have p0: "MoviesMigrationPercent (cfg_gradual 0) = 0"
    and p100: "MoviesMigrationPercent (cfg_gradual 100) = 100"
    by (simp_all add: cfg_gradual_def)
  show ?thesis
    using g0 g100 h p0 p100
      percent_bounds_routing [OF g0 h, of net_up "fresh (const_rand 0)"]
      percent_bounds_routing [OF g100 h, of net_up "fresh (const_rand 99)"]
    by (simp add: fresh_def)
qed

section \<open>The direct answers: CORS preflight and health check\<close>

lemma members_methods:
  "members ''GET, POST, PUT, DELETE, OPTIONS'' = [''GET'', ''POST'', ''PUT'', ''DELETE'', ''OPTIONS'']"
  by (simp add: members_def trim_def)

lemma members_headers:
  "members ''Content-Type, Authorization'' = [''Content-Type'', ''Authorization'']"
  by (simp add: members_def trim_def)

text \<open>
  C6. An \<open>OPTIONS\<close> request, to any path, is answered by the CORS middleware itself:
  status 200, exactly the three CORS headers (origin \<open>*\<close>; methods GET, POST, PUT,
  DELETE, OPTIONS; headers Content-Type, Authorization; the code separates the
  members by a comma and a space), an empty body. \<open>ServeHTTP\<close> is never entered (the
  log holds the access line only), no round trip is made and nothing is drawn.
\<close>

theorem options_short_circuit:
  assumes "Method r = ''OPTIONS''"
  shows "statusCode (handler c net r (fresh g)) = Some 200
    \<and> Header (handler c net r (fresh g)) ''Access-Control-Allow-Origin'' = Some [''*'']
    \<and> Header (handler c net r (fresh g)) ''Access-Control-Allow-Methods''
        = Some [''GET, POST, PUT, DELETE, OPTIONS'']
    \<and> map_option (map members)
          (Header (handler c net r (fresh g)) ''Access-Control-Allow-Methods'')
        = Some [[''GET'', ''POST'', ''PUT'', ''DELETE'', ''OPTIONS'']]
    \<and> Header (handler c net r (fresh g)) ''Access-Control-Allow-Headers''
        = Some [''Content-Type, Authorization'']
    \<and> map_option (map members)
          (Header (handler c net r (fresh g)) ''Access-Control-Allow-Headers'')
        = Some [[''Content-Type'', ''Authorization'']]
    \<and> dom (Header (handler c net r (fresh g)))
        = {''Access-Control-Allow-Origin'', ''Access-Control-Allow-Methods'',
           ''Access-Control-Allow-Headers''}
    \<and> body (handler c net r (fresh g)) = []
    \<and> sent (handler c net r (fresh g)) = []
    \<and> rng (handler c net r (fresh g)) = g
    \<and> logs (handler c net r (fresh g)) = [Access ''OPTIONS'' (RequestURI r) (RemoteAddr r) 200]"
proof -
  have "handler c net r (fresh g) =
      Printf (Access ''OPTIONS'' (RequestURI r) (RemoteAddr r) 200)
        (WriteHeader 200
          (Header_Set ''Access-Control-Allow-Headers'' ''Content-Type, Authorization''
            (Header_Set ''Access-Control-Allow-Methods'' ''GET, POST, PUT, DELETE, OPTIONS''
              (Header_Set ''Access-Control-Allow-Origin'' ''*'' (fresh g)))))"
    using assms by (simp add: handler_def LoggingMiddleware_def CORSMiddleware_def Let_def fresh_def)
  then show ?thesis
    by (simp add: members_methods members_headers) (auto simp: fresh_def)
qed

theorem options_short_circuit_witness:
  "Method (req ''OPTIONS'' ''/api/movies/1'') = ''OPTIONS''
   \<and> statusCode (handler (cfg_cutover 100) net_up (req ''OPTIONS'' ''/api/movies/1'')
        (fresh (const_rand 3))) = Some 200
   \<and> Header (handler (cfg_cutover 100) net_up (req ''OPTIONS'' ''/api/movies/1'')
        (fresh (const_rand 3))) ''Access-Control-Allow-Origin'' = Some [''*'']
   \<and> sent (handler (cfg_cutover 100) net_up (req ''OPTIONS'' ''/api/movies/1'')
        (fresh (const_rand 3))) = []"
proof -
  have h: "Method (req ''OPTIONS'' ''/api/movies/1'') = ''OPTIONS''"
    by (simp add: req_def)
  show ?thesis
    using h options_short_circuit [OF h, of "cfg_cutover 100" net_up "const_rand 3"]
    by simp
qed

text \<open>
  C7. A \<open>GET\<close> request for \<open>/health\<close> is answered directly: status 200, content type
  \<open>text/plain\<close>, the fixed body. No routing line is logged, no round trip is made and
  nothing is drawn from the random source.
\<close>

theorem health_short_circuit:
  assumes "Method r = ''GET''" and "Path r = ''/health''"
  shows "statusCode (handler c net r (fresh g)) = Some 200
    \<and> body (handler c net r (fresh g)) = ''Strangler Fig Proxy is healthy''
    \<and> Header (handler c net r (fresh g)) ''Content-Type'' = Some [''text/plain'']
    \<and> sent (handler c net r (fresh g)) = []
    \<and> rng (handler c net r (fresh g)) = g
    \<and> logs (handler c net r (fresh g)) =
        [Incoming ''GET'' ''/health'', Access ''GET'' (RequestURI r) (RemoteAddr r) 200]"
  using assms
  by (simp add: handler_def LoggingMiddleware_def CORSMiddleware_def ServeHTTP_def
      handleHealth_def Let_def fresh_def)

theorem health_short_circuit_witness:
  "Method (req ''GET'' ''/health'') = ''GET'' \<and> Path (req ''GET'' ''/health'') = ''/health''
   \<and> statusCode (handler (cfg_gradual 50) net_down (req ''GET'' ''/health'')
        (fresh (const_rand 3))) = Some 200
   \<and> body (handler (cfg_gradual 50) net_down (req ''GET'' ''/health'')
        (fresh (const_rand 3))) = ''Strangler Fig Proxy is healthy''
   \<and> sent (handler (cfg_gradual 50) net_down (req ''GET'' ''/health'')
        (fresh (const_rand 3))) = []"
proof -
  have h1: "Method (req ''GET'' ''/health'') = ''GET''"
    and h2: "Path (req ''GET'' ''/health'') = ''/health''"
    by (simp_all add: req_def)
  show ?thesis
    using h1 h2 health_short_circuit [OF h1 h2, of "cfg_gradual 50" net_down "const_rand 3"]
    by simp
qed

section \<open>The failure path of forwarding\<close>

lemma error_json_text:
  \<open>error_json = ''{"error":"Service temporarily unavailable"}'' @ [CHR 0x0A]\<close>
  by (simp add: error_json_def)




lemma proxy_errors_Printf [simp]: "proxy_errors (Printf l w) = proxy_errors w @ error_of l"
  by (simp add: proxy_errors_def)

lemma proxy_errors_writer [simp]:
  "proxy_errors (WriteHeader code w) = proxy_errors w"
  "proxy_errors (Header_Set k v w) = proxy_errors w"
  "proxy_errors (fresh g) = []"
  by (simp_all add: proxy_errors_def fresh_def)



lemma sent_handleHealth [simp]: "sent (handleHealth w) = sent w"
  by (simp add: handleHealth_def)

lemma proxy_errors_handleHealth [simp]:
  "proxy_errors (handleHealth w) = proxy_errors w"
  by (simp add: handleHealth_def proxy_errors_def)





text \<open>
  A second failure that does not end in the 502: an answer that breaks off in its
  body. The backend's status and the part that arrived have been written, the error
  handler is not called, and the handler panics.
\<close>

lemma cut_off_reply_example:
  "sent (handler (cfg_gradual 50) net_cut (req ''GET'' ''/api/users'')
        (fresh (const_rand 1))) = [Monolith]
   \<and> statusCode (handler (cfg_gradual 50) net_cut (req ''GET'' ''/api/users'')
        (fresh (const_rand 1))) = Some 200
   \<and> body (handler (cfg_gradual 50) net_cut (req ''GET'' ''/api/users'')
        (fresh (const_rand 1))) = ''[{''
   \<and> fate (handler (cfg_gradual 50) net_cut (req ''GET'' ''/api/users'')
        (fresh (const_rand 1))) = Panics
   \<and> proxy_errors (handler (cfg_gradual 50) net_cut (req ''GET'' ''/api/users'')
        (fresh (const_rand 1))) = []"
  by (simp add: handler_def LoggingMiddleware_def CORSMiddleware_def ServeHTTP_def
      proxy_ServeHTTP_def Let_def req_def HasPrefix_def fresh_def net_cut_def proxy_errors_def)



section \<open>Classification\<close>

lemma categories_Printf [simp]: "categories (Printf l w) = categories w @ category_of l"
  by (simp add: categories_def)

lemma categories_rng [simp]: "categories (w\<lparr>rng := g\<rparr>) = categories w"
  by (simp add: categories_def)

lemma categories_fresh [simp]: "categories (fresh g) = []"
  by (simp add: categories_def fresh_def)

lemma categories_proxy [simp]: "categories (proxy_ServeHTTP b net r w) = categories w"
  by (auto simp: categories_def split: upstream.splits)

lemma categories_handleHealth [simp]: "categories (handleHealth w) = categories w"
  by (simp add: categories_def handleHealth_def)

lemma categories_ServeHTTP:
  "categories (ServeHTTP c net r (fresh g)) =
     (if Path r = ''/health'' then [] else [classify (Path r)])"
  by (simp add: ServeHTTP_def classify_def Let_def case_prod_beta HasPrefix_movies_not_events)

lemma lower_events: "map lower ''/api/events'' = ''/api/events''"
  by (simp add: lower_def)

lemma lower_movies: "map lower ''/api/movies'' = ''/api/movies''"
  by (simp add: lower_def)

lemma case_variant_default:
  assumes "case_variant ''/api/movies'' p \<or> case_variant ''/api/events'' p"
  shows "p \<noteq> ''/health'' \<and> classify p = Default"
proof -
  have "\<not> HasPrefix p ''/api/movies''" "\<not> HasPrefix p ''/api/events''"
    using assms lower_events lower_movies
    by (auto simp: case_variant_def HasPrefix_def)
  moreover have "p \<noteq> ''/health''"
    using assms by (auto simp: case_variant_def lower_def)
  ultimately show ?thesis by (simp add: classify_def)
qed

text \<open>
  C9. The category that \<open>ServeHTTP\<close> acts on is a function of the path alone: it is
  \<open>classify\<close> of the path (none for \<open>/health\<close>), so two requests with the same path
  are classified alike under any configurations, networks and random sources. The
  comparison is exact: a path whose first eleven characters spell \<open>/api/movies\<close> or
  \<open>/api/events\<close> in another letter case (such as \<open>/API/movies\<close>) is classified
  \<open>Default\<close> and forwarded to the monolith.
\<close>

theorem classification_exact:
  "categories (ServeHTTP c net r (fresh g)) =
     (if Path r = ''/health'' then [] else [classify (Path r)])
   \<and> (Path r' = Path r \<longrightarrow>
        categories (ServeHTTP c' net' r' (fresh g')) = categories (ServeHTTP c net r (fresh g)))
   \<and> (case_variant ''/api/movies'' (Path r) \<or> case_variant ''/api/events'' (Path r) \<longrightarrow>
        categories (ServeHTTP c net r (fresh g)) = [Default]
        \<and> sent (ServeHTTP c net r (fresh g)) = [Monolith])"
proof (intro conjI impI)
  show "categories (ServeHTTP c net r (fresh g)) =
     (if Path r = ''/health'' then [] else [classify (Path r)])"
    by (rule categories_ServeHTTP)
next
  assume "Path r' = Path r"
  then show "categories (ServeHTTP c' net' r' (fresh g')) = categories (ServeHTTP c net r (fresh g))"
    by (simp add: categories_ServeHTTP)
next
  assume a: "case_variant ''/api/movies'' (Path r) \<or> case_variant ''/api/events'' (Path r)"
  from case_variant_default [OF a]
  show "categories (ServeHTTP c net r (fresh g)) = [Default]"
    by (simp add: categories_ServeHTTP)
next
  assume a: "case_variant ''/api/movies'' (Path r) \<or> case_variant ''/api/events'' (Path r)"
  from case_variant_default [OF a]
  show "sent (ServeHTTP c net r (fresh g)) = [Monolith]"
    by (simp add: ServeHTTP_def classify_def Let_def fresh_def split: if_splits)
qed

theorem classification_exact_witness:
  "case_variant ''/api/movies'' (Path (req ''GET'' ''/API/movies''))
   \<and> Path (req ''POST'' ''/API/movies'') = Path (req ''GET'' ''/API/movies'')
   \<and> categories (ServeHTTP (cfg_cutover 100) net_up (req ''GET'' ''/API/movies'')
        (fresh (const_rand 0))) = [Default]
   \<and> categories (ServeHTTP (cfg_gradual 0) net_down (req ''POST'' ''/API/movies'')
        (fresh (const_rand 5))) = [Default]
   \<and> sent (ServeHTTP (cfg_cutover 100) net_up (req ''GET'' ''/API/movies'')
        (fresh (const_rand 0))) = [Monolith]"
proof -
  have h: "case_variant ''/api/movies'' (Path (req ''GET'' ''/API/movies''))"
    by (simp add: case_variant_def req_def lower_def)
  have p: "Path (req ''POST'' ''/API/movies'') = Path (req ''GET'' ''/API/movies'')"
    by (simp add: req_def)
  note t = classification_exact [where r = "req ''GET'' ''/API/movies''"
        and r' = "req ''POST'' ''/API/movies''" and c = "cfg_cutover 100" and net = net_up
        and g = "const_rand 0" and c' = "cfg_gradual 0" and net' = net_down
        and g' = "const_rand 5"]
  from t h have a: "categories (ServeHTTP (cfg_cutover 100) net_up (req ''GET'' ''/API/movies'')
        (fresh (const_rand 0))) = [Default]"
    and b: "sent (ServeHTTP (cfg_cutover 100) net_up (req ''GET'' ''/API/movies'')
        (fresh (const_rand 0))) = [Monolith]"
    by blast+
  from t p a have c: "categories (ServeHTTP (cfg_gradual 0) net_down
        (req ''POST'' ''/API/movies'') (fresh (const_rand 5))) = [Default]"
    by simp
  from h p a c b show ?thesis by blast
qed

section \<open>Loading the configuration\<close>

lemma Getenv_true: "(Getenv e k = ''true'') = (e k = Some ''true'')"
  by (auto simp: Getenv_def split: option.splits)

lemma ServeHTTP_cutover:
  assumes "\<not> GradualMigration c" and "HasPrefix (Path r) ''/api/movies''"
  shows "sent (ServeHTTP c net r w) = sent w @ [MoviesMicroservice]
         \<and> rng (ServeHTTP c net r w) = rng w"
proof -
  from assms(2) have "Path r \<noteq> ''/health''" and "\<not> HasPrefix (Path r) ''/api/events''"
    by (simp_all add: HasPrefix_movies_not_health HasPrefix_movies_not_events)
  with assms show ?thesis
    by (simp add: ServeHTTP_def shouldRouteToNewService_def Let_def)
qed

text \<open>
  C10. \<open>loadConfig\<close> turns gradual migration on exactly when the variable
  \<open>GRADUAL_MIGRATION\<close> is set to the string \<open>true\<close>. For every other value, and when
  the variable is unset, it is off, and then every request under \<open>/api/movies\<close> goes
  to the movies microservice, whatever the migration percentage, with no draw.
\<close>

theorem gradual_flag_exact:
  "GradualMigration (loadConfig e) = (e ''GRADUAL_MIGRATION'' = Some ''true'')
   \<and> (e ''GRADUAL_MIGRATION'' \<noteq> Some ''true'' \<and> HasPrefix (Path r) ''/api/movies'' \<longrightarrow>
        sent (ServeHTTP ((loadConfig e)\<lparr>MoviesMigrationPercent := p\<rparr>) net r w)
          = sent w @ [MoviesMicroservice]
        \<and> rng (ServeHTTP ((loadConfig e)\<lparr>MoviesMigrationPercent := p\<rparr>) net r w) = rng w)"
proof (intro conjI impI)
  show g: "GradualMigration (loadConfig e) = (e ''GRADUAL_MIGRATION'' = Some ''true'')"
    by (simp add: loadConfig_def Getenv_true)
  assume a: "e ''GRADUAL_MIGRATION'' \<noteq> Some ''true'' \<and> HasPrefix (Path r) ''/api/movies''"
  with g have n: "\<not> GradualMigration ((loadConfig e)\<lparr>MoviesMigrationPercent := p\<rparr>)"
    by simp
  from ServeHTTP_cutover [OF n, of r net w] a
  show "sent (ServeHTTP ((loadConfig e)\<lparr>MoviesMigrationPercent := p\<rparr>) net r w)
          = sent w @ [MoviesMicroservice]"
    and "rng (ServeHTTP ((loadConfig e)\<lparr>MoviesMigrationPercent := p\<rparr>) net r w) = rng w"
    by simp_all
qed

theorem gradual_flag_exact_witness:
  "[''GRADUAL_MIGRATION'' \<mapsto> ''TRUE'', ''MOVIES_MIGRATION_PERCENT'' \<mapsto> ''0'']
       ''GRADUAL_MIGRATION'' \<noteq> Some ''true''
   \<and> HasPrefix (Path (req ''GET'' ''/api/movies'')) ''/api/movies''
   \<and> \<not> GradualMigration
         (loadConfig [''GRADUAL_MIGRATION'' \<mapsto> ''TRUE'', ''MOVIES_MIGRATION_PERCENT'' \<mapsto> ''0''])
   \<and> MoviesMigrationPercent
         (loadConfig [''GRADUAL_MIGRATION'' \<mapsto> ''TRUE'', ''MOVIES_MIGRATION_PERCENT'' \<mapsto> ''0''])
       = 0
   \<and> sent (ServeHTTP
         ((loadConfig [''GRADUAL_MIGRATION'' \<mapsto> ''TRUE'', ''MOVIES_MIGRATION_PERCENT'' \<mapsto> ''0''])
            \<lparr>MoviesMigrationPercent := 0\<rparr>)
         net_up (req ''GET'' ''/api/movies'') (fresh (const_rand 42))) = [MoviesMicroservice]"
proof -
  let ?e = "[''GRADUAL_MIGRATION'' \<mapsto> ''TRUE'', ''MOVIES_MIGRATION_PERCENT'' \<mapsto> ''0'']"
  have h1: "?e ''GRADUAL_MIGRATION'' \<noteq> Some ''true''" by simp
  have h2: "HasPrefix (Path (req ''GET'' ''/api/movies'')) ''/api/movies''"
    by (simp add: req_def HasPrefix_def)
  have p: "MoviesMigrationPercent (loadConfig ?e) = 0"
    by (simp add: loadConfig_def Getenv_def Atoi_def isDigit_def)
  note t = gradual_flag_exact [where e = ?e and r = "req ''GET'' ''/api/movies''" and p = 0
      and net = net_up and w = "fresh (const_rand 42)"]
  from t h1 have g: "\<not> GradualMigration (loadConfig ?e)" by blast
  from t h1 h2 have s: "sent (ServeHTTP ((loadConfig ?e)\<lparr>MoviesMigrationPercent := 0\<rparr>)
         net_up (req ''GET'' ''/api/movies'') (fresh (const_rand 42)))
       = sent (fresh (const_rand 42)) @ [MoviesMicroservice]" by blast
  then have s': "sent (ServeHTTP ((loadConfig ?e)\<lparr>MoviesMigrationPercent := 0\<rparr>)
         net_up (req ''GET'' ''/api/movies'') (fresh (const_rand 42))) = [MoviesMicroservice]"
    by (simp add: fresh_def)
  from h1 h2 g p s' show ?thesis by blast
qed

lemma Atoi_150: "Atoi ''150'' = Some 150"
  by (simp add: Atoi_def isDigit_def)

lemma percent_negative_example:
  "MoviesMigrationPercent (loadConfig [''MOVIES_MIGRATION_PERCENT'' \<mapsto> ''-5'']) = - 5"
  by (simp add: loadConfig_def Getenv_def Atoi_def isDigit_def)

lemma Atoi_empty: "Atoi [] = None"
  by (simp add: Atoi_def)

lemma should_clamped:
  "fst (shouldRouteToNewService (clamped c) g) = fst (shouldRouteToNewService c g)"
  "snd (shouldRouteToNewService (clamped c) g) = snd (shouldRouteToNewService c g)"
  using Intn_range [of 100 g]
  by (auto simp: shouldRouteToNewService_def clamped_def case_prod_beta Let_def)

lemma sent_ServeHTTP:
  "sent (ServeHTTP c net r w) =
     (if Path r = ''/health'' then sent w
      else if HasPrefix (Path r) ''/api/events'' then sent w @ [EventsMicroservice]
      else if HasPrefix (Path r) ''/api/movies'' then
        sent w @ [if fst (shouldRouteToNewService c (rng w)) then MoviesMicroservice else Monolith]
      else sent w @ [Monolith])"
  by (simp add: ServeHTTP_def Let_def case_prod_beta)

lemma rng_ServeHTTP:
  "rng (ServeHTTP c net r w) =
     (if Path r \<noteq> ''/health'' \<and> \<not> HasPrefix (Path r) ''/api/events''
         \<and> HasPrefix (Path r) ''/api/movies''
      then snd (shouldRouteToNewService c (rng w)) else rng w)"
  by (simp add: ServeHTTP_def Let_def case_prod_beta handleHealth_def)

text \<open>
  C4, as stated: after loading, the migration percentage lies in \<open>[0, 100]\<close>, values
  outside being rejected or clamped. \<open>loadConfig\<close> has no range check: with
  \<open>MOVIES_MIGRATION_PERCENT=150\<close> the loaded percentage is 150.
\<close>

theorem percent_unclamped_counterexample:
  "MoviesMigrationPercent (loadConfig [''MOVIES_MIGRATION_PERCENT'' \<mapsto> ''150'']) = 150
   \<and> \<not> (0 \<le> MoviesMigrationPercent (loadConfig [''MOVIES_MIGRATION_PERCENT'' \<mapsto> ''150''])
        \<and> MoviesMigrationPercent (loadConfig [''MOVIES_MIGRATION_PERCENT'' \<mapsto> ''150'']) \<le> 100)"
  by (simp add: loadConfig_def Getenv_def Atoi_150)

text \<open>
  C4, amended: after loading, the migration percentage is the integer that \<open>Atoi\<close>
  reads from \<open>MOVIES_MIGRATION_PERCENT\<close>, or 50 when the variable is unset, empty or
  does not parse; it lies in \<open>[0, 100]\<close> exactly when the parsed value does (or none
  was parsed). A value outside the range is neither rejected nor clamped at load time
  and reaches the routing policy, where it acts as the nearer bound: every decision,
  every round trip and every draw is the same as with the percentage clamped to
  \<open>[0, 100]\<close>.
\<close>

theorem percent_loaded:
  "MoviesMigrationPercent (loadConfig e) =
     (case Atoi (Getenv e ''MOVIES_MIGRATION_PERCENT'') of None \<Rightarrow> 50 | Some percent \<Rightarrow> percent)
   \<and> (0 \<le> MoviesMigrationPercent (loadConfig e) \<and> MoviesMigrationPercent (loadConfig e) \<le> 100)
       = (case Atoi (Getenv e ''MOVIES_MIGRATION_PERCENT'') of
            None \<Rightarrow> True | Some percent \<Rightarrow> 0 \<le> percent \<and> percent \<le> 100)
   \<and> fst (shouldRouteToNewService c g) = fst (shouldRouteToNewService (clamped c) g)
   \<and> sent (ServeHTTP c net r w) = sent (ServeHTTP (clamped c) net r w)
   \<and> rng (ServeHTTP c net r w) = rng (ServeHTTP (clamped c) net r w)"
proof (intro conjI)
  show "MoviesMigrationPercent (loadConfig e) =
     (case Atoi (Getenv e ''MOVIES_MIGRATION_PERCENT'') of None \<Rightarrow> 50 | Some percent \<Rightarrow> percent)"
    by (simp add: loadConfig_def Let_def Atoi_empty)
  show "(0 \<le> MoviesMigrationPercent (loadConfig e) \<and> MoviesMigrationPercent (loadConfig e) \<le> 100)
       = (case Atoi (Getenv e ''MOVIES_MIGRATION_PERCENT'') of
            None \<Rightarrow> True | Some percent \<Rightarrow> 0 \<le> percent \<and> percent \<le> 100)"
    by (simp add: loadConfig_def Let_def Atoi_empty split: option.splits)
  show "fst (shouldRouteToNewService c g) = fst (shouldRouteToNewService (clamped c) g)"
    by (simp add: should_clamped)
  show "sent (ServeHTTP c net r w) = sent (ServeHTTP (clamped c) net r w)"
    by (simp add: sent_ServeHTTP should_clamped)
  show "rng (ServeHTTP c net r w) = rng (ServeHTTP (clamped c) net r w)"
    by (simp add: rng_ServeHTTP should_clamped)
qed

theorem percent_loaded_witness:
  "MoviesMigrationPercent (loadConfig [''MOVIES_MIGRATION_PERCENT'' \<mapsto> ''75'']) = 75
   \<and> MoviesMigrationPercent (loadConfig [''MOVIES_MIGRATION_PERCENT'' \<mapsto> ''many'']) = 50
   \<and> MoviesMigrationPercent (loadConfig Map.empty) = 50
   \<and> sent (ServeHTTP (cfg_gradual 150) net_up (req ''GET'' ''/api/movies'') (fresh (const_rand 99)))
       = [MoviesMicroservice]
   \<and> sent (ServeHTTP (cfg_gradual (- 5)) net_up (req ''GET'' ''/api/movies'') (fresh (const_rand 0)))
       = [Monolith]"
proof -
  have a: "Atoi (Getenv [''MOVIES_MIGRATION_PERCENT'' \<mapsto> ''75''] ''MOVIES_MIGRATION_PERCENT'') = Some 75"
    and b: "Atoi (Getenv [''MOVIES_MIGRATION_PERCENT'' \<mapsto> ''many''] ''MOVIES_MIGRATION_PERCENT'') = None"
    and c: "Atoi (Getenv Map.empty ''MOVIES_MIGRATION_PERCENT'') = None"
    by (simp_all add: Getenv_def Atoi_def isDigit_def)
  have d: "sent (ServeHTTP (clamped (cfg_gradual 150)) net_up (req ''GET'' ''/api/movies'')
             (fresh (const_rand 99))) = [MoviesMicroservice]"
    and e: "sent (ServeHTTP (clamped (cfg_gradual (- 5))) net_up (req ''GET'' ''/api/movies'')
             (fresh (const_rand 0))) = [Monolith]"
    by (simp_all add: sent_ServeHTTP shouldRouteToNewService_def clamped_def cfg_gradual_def
        req_def HasPrefix_def fresh_def const_rand_def Intn_def)
  show ?thesis
    using a b c d e
      percent_loaded [where e = "[''MOVIES_MIGRATION_PERCENT'' \<mapsto> ''75'']"
        and c = "cfg_gradual 150" and net = net_up and r = "req ''GET'' ''/api/movies''"
        and w = "fresh (const_rand 99)" and g = "const_rand 99"]
      percent_loaded [where e = "[''MOVIES_MIGRATION_PERCENT'' \<mapsto> ''many'']"
        and c = "cfg_gradual (- 5)" and net = net_up and r = "req ''GET'' ''/api/movies''"
        and w = "fresh (const_rand 0)" and g = "const_rand 0"]
      percent_loaded [where e = "Map.empty"
        and c = "cfg_gradual (- 5)" and net = net_up and r = "req ''GET'' ''/api/movies''"
        and w = "fresh (const_rand 0)" and g = "const_rand 0"]
    by simp
qed

end
